theory Spec2Isabelle
  imports Main "HOL-Library.Word"
begin

section \<open>The CustomDeployment controller\<close>

text \<open>
  A shallow embedding of the two reconcilers of the repository:
  \<^item> \<^verbatim>\<open>custom-deployment-controller/internal/controller/controller.go\<close>, the
    finalizer-aware controller (\<open>Reconcile\<close>, \<open>handleCreateOrUpdate\<close>,
    \<open>handleDeletion\<close>, \<open>desiredDeployment\<close>);
  \<^item> \<^verbatim>\<open>custom-deployment-controller/controller/controller.go\<close>, the earlier
    controller without finalizers (\<open>controller_Reconcile\<close>,
    \<open>controller_desiredDeployment\<close>);
  together with the API types of package \<^verbatim>\<open>appsv1alpha1\<close> and the wiring of
  \<^verbatim>\<open>main.go\<close>.

  The API client is an interface of controller-runtime. A reconcile pass calls it at most
  once per method and object, so the client is modelled by what it answers to each call,
  and a pass returns the sequence of calls it issued next to its Go result. Logging is
  left out: it is not a client call and no result depends on it.

  The functions of the libraries the repository imports (\<^verbatim>\<open>k8s.io/apimachinery\<close>,
  \<^verbatim>\<open>sigs.k8s.io/controller-runtime\<close>: \<open>IsNotFound\<close>, \<open>IgnoreNotFound\<close>,
  \<open>ContainsFinalizer\<close>, \<open>AddFinalizer\<close>, \<open>RemoveFinalizer\<close>,
  \<open>SetControllerReference\<close> and the scheme) are not part of the repository; they are
  modelled after the behaviour the libraries document, under the names the Go code calls
  them by.
\<close>

subsection \<open>Kubernetes API types\<close>

text \<open>Go's \<^verbatim>\<open>int32\<close>; the controllers only compare and copy such values.\<close>

type_synonym int32 = "32 word"

text \<open>
  \<^verbatim>\<open>metav1.Time\<close>, as the distance from Go's zero instant; \<^verbatim>\<open>*metav1.Time\<close> is an
  option, and \<^verbatim>\<open>(*Time).IsZero\<close> holds of the nil pointer and of the zero instant.
\<close>

type_synonym Time = int

fun IsZero :: "Time option \<Rightarrow> bool" where
  "IsZero None = True"
| "IsZero (Some t) = (t = 0)"

record Container =
  Name :: string
  Image :: string

record PodSpec =
  Containers :: "Container list"

record LabelSelector =
  MatchLabels :: "string \<rightharpoonup> string"

record GroupVersionKind =
  Group :: string
  Version :: string
  Kind :: string

record OwnerReference =
  APIVersion :: string
  Kind :: string
  Name :: string
  UID :: string
  Controller :: "bool option"
  BlockOwnerDeletion :: "bool option"

record NamespacedName =
  Namespace :: string
  Name :: string

text \<open>
  \<^verbatim>\<open>metav1.ObjectMeta\<close>. The Go structs embed it, which the records below
  render as record extension: \<open>Name cd\<close> is Go's \<^verbatim>\<open>cd.Name\<close>.
\<close>

record ObjectMeta =
  Name :: string
  Namespace :: string
  UID :: string
  ResourceVersion :: string
  DeletionTimestamp :: "Time option"
  Labels :: "string \<rightharpoonup> string"
  Annotations :: "string \<rightharpoonup> string"
  OwnerReferences :: "OwnerReference list"
  Finalizers :: "string list"

record PodTemplateSpec = ObjectMeta +
  Spec :: PodSpec

record DeploymentSpec =
  Replicas :: "int32 option"
  Selector :: "LabelSelector option"
  Template :: PodTemplateSpec

record DeploymentStatus =
  Replicas :: int32
  ReadyReplicas :: int32
  AvailableReplicas :: int32

record Deployment = ObjectMeta +
  Spec :: DeploymentSpec
  Status :: DeploymentStatus

text \<open>Package \<^verbatim>\<open>appsv1alpha1\<close>.\<close>

record CustomDeploymentSpec =
  Replicas :: int32

record CustomDeploymentStatus =
  AvailableReplicas :: int32

record CustomDeployment = ObjectMeta +
  Spec :: CustomDeploymentSpec
  Status :: CustomDeploymentStatus

subsection \<open>Errors\<close>

text \<open>
  An error is either an API status error with its reason, or any other error.
  \<^verbatim>\<open>errors.IsNotFound\<close> recognises the reason NotFound;
  \<^verbatim>\<open>client.IgnoreNotFound\<close> turns such an error into nil.
\<close>

datatype StatusReason =
  StatusReasonNotFound
| StatusReasonAlreadyExists
| StatusReasonConflict
| StatusReasonForbidden
| StatusReasonUnknown

datatype error =
  StatusError StatusReason
| OtherError string

fun IsNotFound :: "error \<Rightarrow> bool" where
  "IsNotFound (StatusError r) = (r = StatusReasonNotFound)"
| "IsNotFound (OtherError m) = False"

definition IgnoreNotFound :: "error \<Rightarrow> error option" where
  "IgnoreNotFound err = (if IsNotFound err then None else Some err)"

subsection \<open>The scheme and the owner reference\<close>

text \<open>
  A \<^verbatim>\<open>runtime.Scheme\<close> relates group-version-kinds to Go types. Only the Go types
  declared in this repository are tracked: registrations of the types of other packages
  (\<^verbatim>\<open>appsv1.AddToScheme\<close>, \<^verbatim>\<open>corev1.AddToScheme\<close>,
  \<^verbatim>\<open>metav1.AddToGroupVersion\<close>) leave this part of a scheme as it is.
\<close>

datatype GoType = CustomDeploymentType | CustomDeploymentListType

fun typeName :: "GoType \<Rightarrow> string" where
  "typeName CustomDeploymentType = ''CustomDeployment''"
| "typeName CustomDeploymentListType = ''CustomDeploymentList''"

type_synonym GroupVersion = "string \<times> string"

type_synonym Scheme = "(GroupVersionKind \<times> GoType) list"

definition NewScheme :: Scheme where
  "NewScheme = []"

definition AddKnownTypes :: "Scheme \<Rightarrow> GroupVersion \<Rightarrow> GoType list \<Rightarrow> Scheme" where
  "AddKnownTypes s gv types =
     s @ map (\<lambda>t. (\<lparr>Group = fst gv, Version = snd gv, GroupVersionKind.Kind = typeName t\<rparr>, t)) types"

definition metav1_AddToGroupVersion :: "Scheme \<Rightarrow> GroupVersion \<Rightarrow> Scheme" where
  "metav1_AddToGroupVersion s gv = s"

definition appsv1_AddToScheme :: "Scheme \<Rightarrow> Scheme" where
  "appsv1_AddToScheme s = s"

definition corev1_AddToScheme :: "Scheme \<Rightarrow> Scheme" where
  "corev1_AddToScheme s = s"

text \<open>\<^verbatim>\<open>apiutil.GVKForObject\<close>: the one kind a Go type is registered under.\<close>

definition GVKForObject :: "GoType \<Rightarrow> Scheme \<Rightarrow> error + GroupVersionKind" where
  "GVKForObject t s =
     (case filter (\<lambda>e. snd e = t) s of
        [] \<Rightarrow> Inl (OtherError ''no kind is registered for the type'')
      | [e] \<Rightarrow> Inr (fst e)
      | e # e' # es \<Rightarrow> Inl (OtherError ''multiple group-version-kinds associated with type''))"

text \<open>\<^verbatim>\<open>GroupVersion.String\<close>.\<close>

definition GroupVersion_String :: "GroupVersionKind \<Rightarrow> string" where
  "GroupVersion_String gvk =
     (if Group gvk = [] then Version gvk else Group gvk @ ''/'' @ Version gvk)"

text \<open>\<^verbatim>\<open>schema.ParseGroupVersion\<close>, returning group and version.\<close>

definition ParseGroupVersion :: "string \<Rightarrow> error + GroupVersion" where
  "ParseGroupVersion gv =
     (if gv = [] \<or> gv = ''/'' then Inr ([], [])
      else if count_list gv (CHR ''/'') = 0 then Inr ([], gv)
      else if count_list gv (CHR ''/'') = 1
        then Inr (takeWhile (\<lambda>ch. ch \<noteq> CHR ''/'') gv, tl (dropWhile (\<lambda>ch. ch \<noteq> CHR ''/'') gv))
      else Inl (OtherError ''unexpected GroupVersion string''))"

text \<open>
  \<^verbatim>\<open>controllerutil.SetControllerReference\<close> and its helpers, for an owner of Go type
  \<^verbatim>\<open>CustomDeployment\<close>: the owner is validated, its kind is looked up in the scheme,
  an object that another controller owns is refused, and the reference is added or
  replaced.
\<close>

definition validateOwner :: "'a ObjectMeta_scheme \<Rightarrow> 'b ObjectMeta_scheme \<Rightarrow> error option" where
  "validateOwner owner object =
     (if Namespace owner \<noteq> [] then
        (if Namespace object = []
           then Some (OtherError ''cluster-scoped resource must not have a namespace-scoped owner'')
         else if Namespace owner \<noteq> Namespace object
           then Some (OtherError ''cross-namespace owner references are disallowed'')
         else None)
      else None)"

definition referSameObject :: "OwnerReference \<Rightarrow> OwnerReference \<Rightarrow> bool" where
  "referSameObject a b =
     (case ParseGroupVersion (APIVersion a) of
        Inl err \<Rightarrow> False
      | Inr aGV \<Rightarrow>
          (case ParseGroupVersion (APIVersion b) of
             Inl err \<Rightarrow> False
           | Inr bGV \<Rightarrow>
               fst aGV = fst bGV \<and> OwnerReference.Kind a = OwnerReference.Kind b
               \<and> OwnerReference.Name a = OwnerReference.Name b))"

definition GetControllerOf :: "'a ObjectMeta_scheme \<Rightarrow> OwnerReference option" where
  "GetControllerOf object = find (\<lambda>r. Controller r = Some True) (OwnerReferences object)"

definition validateControllerRef :: "OwnerReference \<Rightarrow> 'a ObjectMeta_scheme \<Rightarrow> error option" where
  "validateControllerRef ref object =
     (case GetControllerOf object of
        None \<Rightarrow> None
      | Some existing \<Rightarrow>
          if \<not> referSameObject existing ref
            then Some (OtherError ''object is already owned by another controller'')
          else None)"

fun upsertRefs :: "OwnerReference \<Rightarrow> OwnerReference list \<Rightarrow> OwnerReference list" where
  "upsertRefs ref [] = [ref]"
| "upsertRefs ref (r # rs) = (if referSameObject r ref then ref # rs else r # upsertRefs ref rs)"

definition upsertOwnerRef :: "OwnerReference \<Rightarrow> 'a ObjectMeta_scheme \<Rightarrow> 'a ObjectMeta_scheme" where
  "upsertOwnerRef ref object = object\<lparr>OwnerReferences := upsertRefs ref (OwnerReferences object)\<rparr>"

definition SetControllerReference ::
  "CustomDeployment \<Rightarrow> 'a ObjectMeta_scheme \<Rightarrow> Scheme \<Rightarrow> error + 'a ObjectMeta_scheme" where
  "SetControllerReference owner controlled scheme =
     (case validateOwner owner controlled of
        Some err \<Rightarrow> Inl err
      | None \<Rightarrow>
          (case GVKForObject CustomDeploymentType scheme of
             Inl err \<Rightarrow> Inl err
           | Inr gvk \<Rightarrow>
               (let ref = \<lparr>APIVersion = GroupVersion_String gvk,
                           OwnerReference.Kind = GroupVersionKind.Kind gvk,
                           OwnerReference.Name = Name owner,
                           OwnerReference.UID = UID owner,
                           Controller = Some True,
                           BlockOwnerDeletion = Some True\<rparr>
                in case validateControllerRef ref controlled of
                     Some err \<Rightarrow> Inl err
                   | None \<Rightarrow> Inr (upsertOwnerRef ref controlled))))"

subsection \<open>Finalizers\<close>

text \<open>
  \<^verbatim>\<open>controllerutil.ContainsFinalizer\<close>, \<^verbatim>\<open>AddFinalizer\<close> and
  \<^verbatim>\<open>RemoveFinalizer\<close>. The Go functions change the object in place; here they
  return it.
\<close>

definition ContainsFinalizer :: "'a ObjectMeta_scheme \<Rightarrow> string \<Rightarrow> bool" where
  "ContainsFinalizer ob finalizer = (finalizer \<in> set (Finalizers ob))"

definition AddFinalizer :: "'a ObjectMeta_scheme \<Rightarrow> string \<Rightarrow> 'a ObjectMeta_scheme" where
  "AddFinalizer ob finalizer =
     (if finalizer \<in> set (Finalizers ob) then ob
      else ob\<lparr>Finalizers := Finalizers ob @ [finalizer]\<rparr>)"

definition RemoveFinalizer :: "'a ObjectMeta_scheme \<Rightarrow> string \<Rightarrow> 'a ObjectMeta_scheme" where
  "RemoveFinalizer ob finalizer =
     ob\<lparr>Finalizers := filter (\<lambda>e. e \<noteq> finalizer) (Finalizers ob)\<rparr>"

subsection \<open>The client\<close>

text \<open>
  \<^verbatim>\<open>client.Client\<close>, one field per method and object kind the controllers use.
  \<open>Get\<close> answers with the object or an error. \<open>Create\<close>, \<open>Update\<close> and the status
  \<open>Update\<close> answer with an error or with the object as the server returned it, which
  the Go client writes back into the argument. \<open>Delete\<close> answers with an error or nil.
\<close>

record Client =
  Get_CustomDeployment :: "NamespacedName \<Rightarrow> error + CustomDeployment"
  Get_Deployment :: "NamespacedName \<Rightarrow> error + Deployment"
  Create_Deployment :: "Deployment \<Rightarrow> error + Deployment"
  Update_Deployment :: "Deployment \<Rightarrow> error + Deployment"
  Update_CustomDeployment :: "CustomDeployment \<Rightarrow> error + CustomDeployment"
  Delete_Deployment :: "Deployment \<Rightarrow> error option"
  Status_Update :: "CustomDeployment \<Rightarrow> error + CustomDeployment"

datatype Call =
  CallGetCustomDeployment NamespacedName
| CallGetDeployment NamespacedName
| CallCreate Deployment
| CallUpdateDeployment Deployment
| CallUpdateCustomDeployment CustomDeployment
| CallDelete Deployment
| CallStatusUpdate CustomDeployment

record CustomDeploymentController =
  Client :: Client
  Scheme :: Scheme

text \<open>\<^verbatim>\<open>ctrl.Request\<close> and \<^verbatim>\<open>ctrl.Result\<close>; \<open>Result_empty\<close> is \<^verbatim>\<open>ctrl.Result{}\<close>.\<close>

record Request =
  NamespacedName :: NamespacedName

record Result =
  Requeue :: bool
  RequeueAfter :: int

definition Result_empty :: Result where
  "Result_empty = \<lparr>Requeue = False, RequeueAfter = 0\<rparr>"

subsection \<open>Package \<^verbatim>\<open>appsv1alpha1\<close> and \<^verbatim>\<open>main.go\<close>\<close>

definition GroupVersion :: GroupVersion where
  "GroupVersion = (''apps.myorg.io'', ''v1alpha1'')"

definition addKnownTypes :: "Scheme \<Rightarrow> Scheme" where
  "addKnownTypes scheme =
     metav1_AddToGroupVersion
       (AddKnownTypes scheme GroupVersion [CustomDeploymentType, CustomDeploymentListType])
       GroupVersion"

definition AddToScheme :: "Scheme \<Rightarrow> Scheme" where
  "AddToScheme scheme = addKnownTypes scheme"

text \<open>
  \<^verbatim>\<open>main\<close> builds the scheme from the three registrations (none of which returns an
  error here) and hands it, with the manager's client, to the reconciler.
\<close>

definition main_scheme :: Scheme where
  "main_scheme = corev1_AddToScheme (appsv1_AddToScheme (AddToScheme NewScheme))"

definition main_reconciler :: "Client \<Rightarrow> CustomDeploymentController" where
  "main_reconciler mgr_client = \<lparr>Client = mgr_client, Scheme = main_scheme\<rparr>"

subsection \<open>The finalizer-aware controller (\<^verbatim>\<open>internal/controller\<close>)\<close>

definition customDeploymentFinalizer :: string where
  "customDeploymentFinalizer = ''apps.myorg.io/finalizer''"

definition desiredDeployment :: "CustomDeployment \<Rightarrow> Deployment" where
  "desiredDeployment cd =
     (let labels = [''app'' \<mapsto> Name cd] in
      \<lparr>Name = Name cd,
       Namespace = Namespace cd,
       UID = [],
       ResourceVersion = [],
       DeletionTimestamp = None,
       Labels = labels,
       Annotations = Map.empty,
       OwnerReferences = [],
       Finalizers = [],
       Deployment.Spec =
         \<lparr>DeploymentSpec.Replicas = Some (CustomDeploymentSpec.Replicas (CustomDeployment.Spec cd)),
          Selector = Some \<lparr>MatchLabels = labels\<rparr>,
          Template =
            \<lparr>Name = [],
             Namespace = [],
             UID = [],
             ResourceVersion = [],
             DeletionTimestamp = None,
             Labels = labels,
             Annotations = Map.empty,
             OwnerReferences = [],
             Finalizers = [],
             PodTemplateSpec.Spec =
               \<lparr>Containers = [\<lparr>Container.Name = ''app'', Image = ''nginx:latest''\<rparr>]\<rparr>\<rparr>\<rparr>,
       Deployment.Status =
         \<lparr>DeploymentStatus.Replicas = 0, ReadyReplicas = 0,
          DeploymentStatus.AvailableReplicas = 0\<rparr>\<rparr>)"

text \<open>
  \<open>handleCreateOrUpdate\<close>, in its two steps. \<open>convergeDeployment\<close> is the
  \<^verbatim>\<open>if / else if / else\<close> on the result of \<^verbatim>\<open>c.Get\<close>: it returns the calls
  issued and either the error the function returns with, or the Deployment held in
  \<^verbatim>\<open>deploy\<close> afterwards. \<open>publishStatus\<close> is the comparison of the available
  replicas that follows it.
\<close>

definition convergeDeployment ::
  "CustomDeploymentController \<Rightarrow> CustomDeployment \<Rightarrow> Call list \<times> (error + Deployment)" where
  "convergeDeployment c cd =
     (let key = \<lparr>NamespacedName.Namespace = Namespace cd, NamespacedName.Name = Name cd\<rparr> in
      case Get_Deployment (Client c) key of
        Inl err \<Rightarrow>
          if IsNotFound err then
            (case SetControllerReference cd (desiredDeployment cd) (Scheme c) of
               Inl err \<Rightarrow> ([CallGetDeployment key], Inl err)
             | Inr deploy \<Rightarrow>
                 (case Create_Deployment (Client c) deploy of
                    Inl err \<Rightarrow> ([CallGetDeployment key, CallCreate deploy], Inl err)
                  | Inr created \<Rightarrow> ([CallGetDeployment key, CallCreate deploy], Inr created)))
          else ([CallGetDeployment key], Inl err)
      | Inr deploy \<Rightarrow>
          if (case DeploymentSpec.Replicas (Deployment.Spec deploy) of
                None \<Rightarrow> True
              | Some r \<Rightarrow> r \<noteq> CustomDeploymentSpec.Replicas (CustomDeployment.Spec cd))
          then
            (let deploy = deploy\<lparr>Deployment.Spec := (Deployment.Spec deploy)
                   \<lparr>DeploymentSpec.Replicas :=
                      Some (CustomDeploymentSpec.Replicas (CustomDeployment.Spec cd))\<rparr>\<rparr> in
             case Update_Deployment (Client c) deploy of
               Inl err \<Rightarrow> ([CallGetDeployment key, CallUpdateDeployment deploy], Inl err)
             | Inr updated \<Rightarrow> ([CallGetDeployment key, CallUpdateDeployment deploy], Inr updated))
          else ([CallGetDeployment key], Inr deploy))"

definition publishStatus ::
  "CustomDeploymentController \<Rightarrow> CustomDeployment \<Rightarrow> Deployment \<Rightarrow> Call list \<times> error option" where
  "publishStatus c cd deploy =
     (if CustomDeploymentStatus.AvailableReplicas (CustomDeployment.Status cd)
           \<noteq> DeploymentStatus.AvailableReplicas (Deployment.Status deploy)
      then
        (let cd = cd\<lparr>CustomDeployment.Status := (CustomDeployment.Status cd)
               \<lparr>CustomDeploymentStatus.AvailableReplicas :=
                  DeploymentStatus.AvailableReplicas (Deployment.Status deploy)\<rparr>\<rparr> in
         case Status_Update (Client c) cd of
           Inl err \<Rightarrow> ([CallStatusUpdate cd], Some err)
         | Inr written \<Rightarrow> ([CallStatusUpdate cd], None))
      else ([], None))"

definition handleCreateOrUpdate ::
  "CustomDeploymentController \<Rightarrow> CustomDeployment \<Rightarrow> Call list \<times> error option" where
  "handleCreateOrUpdate c cd =
     (case convergeDeployment c cd of
        (calls, Inl err) \<Rightarrow> (calls, Some err)
      | (calls, Inr deploy) \<Rightarrow>
          (case publishStatus c cd deploy of
             (calls', res) \<Rightarrow> (calls @ calls', res)))"

definition handleDeletion ::
  "CustomDeploymentController \<Rightarrow> CustomDeployment \<Rightarrow> Call list \<times> bool \<times> error option" where
  "handleDeletion c cd =
     (let key = \<lparr>NamespacedName.Namespace = Namespace cd, NamespacedName.Name = Name cd\<rparr> in
      case Get_Deployment (Client c) key of
        Inl err \<Rightarrow>
          if IsNotFound err then ([CallGetDeployment key], True, None)
          else ([CallGetDeployment key], False, Some err)
      | Inr deploy \<Rightarrow>
          if IsZero (DeletionTimestamp deploy) then
            (case Delete_Deployment (Client c) deploy of
               Some err \<Rightarrow>
                 if \<not> IsNotFound err
                   then ([CallGetDeployment key, CallDelete deploy], False, Some err)
                 else ([CallGetDeployment key, CallDelete deploy], False, None)
             | None \<Rightarrow> ([CallGetDeployment key, CallDelete deploy], False, None))
          else ([CallGetDeployment key], False, None))"

definition Reconcile ::
  "CustomDeploymentController \<Rightarrow> Request \<Rightarrow> Call list \<times> Result \<times> error option" where
  "Reconcile c req =
     (let key = NamespacedName req in
      case Get_CustomDeployment (Client c) key of
        Inl err \<Rightarrow> ([CallGetCustomDeployment key], Result_empty, IgnoreNotFound err)
      | Inr cd \<Rightarrow>
          if IsZero (DeletionTimestamp cd) then
            if \<not> ContainsFinalizer cd customDeploymentFinalizer then
              (let cd = AddFinalizer cd customDeploymentFinalizer in
               case Update_CustomDeployment (Client c) cd of
                 Inl err \<Rightarrow>
                   ([CallGetCustomDeployment key, CallUpdateCustomDeployment cd],
                    Result_empty, Some err)
               | Inr written \<Rightarrow>
                   ([CallGetCustomDeployment key, CallUpdateCustomDeployment cd],
                    Result_empty, None))
            else
              (case handleCreateOrUpdate c cd of
                 (calls, Some err) \<Rightarrow> (CallGetCustomDeployment key # calls, Result_empty, Some err)
               | (calls, None) \<Rightarrow> (CallGetCustomDeployment key # calls, Result_empty, None))
          else
            if ContainsFinalizer cd customDeploymentFinalizer then
              (case handleDeletion c cd of
                 (calls, deleted, Some err) \<Rightarrow>
                   (CallGetCustomDeployment key # calls, Result_empty, Some err)
               | (calls, deleted, None) \<Rightarrow>
                   if deleted then
                     (let cd = RemoveFinalizer cd customDeploymentFinalizer in
                      case Update_CustomDeployment (Client c) cd of
                        Inl err \<Rightarrow>
                          (CallGetCustomDeployment key # calls @ [CallUpdateCustomDeployment cd],
                           Result_empty, Some err)
                      | Inr written \<Rightarrow>
                          (CallGetCustomDeployment key # calls @ [CallUpdateCustomDeployment cd],
                           Result_empty, None))
                   else (CallGetCustomDeployment key # calls, Result_empty, None))
            else ([CallGetCustomDeployment key], Result_empty, None))"

subsection \<open>The controller without finalizers (\<^verbatim>\<open>controller\<close>)\<close>

definition controller_desiredDeployment :: "CustomDeployment \<Rightarrow> Deployment" where
  "controller_desiredDeployment cd =
     (let labels = [''app'' \<mapsto> Name cd] in
      \<lparr>Name = Name cd,
       Namespace = Namespace cd,
       UID = [],
       ResourceVersion = [],
       DeletionTimestamp = None,
       Labels = labels,
       Annotations = Map.empty,
       OwnerReferences = [],
       Finalizers = [],
       Deployment.Spec =
         \<lparr>DeploymentSpec.Replicas = Some (CustomDeploymentSpec.Replicas (CustomDeployment.Spec cd)),
          Selector = Some \<lparr>MatchLabels = labels\<rparr>,
          Template =
            \<lparr>Name = [],
             Namespace = [],
             UID = [],
             ResourceVersion = [],
             DeletionTimestamp = None,
             Labels = labels,
             Annotations = Map.empty,
             OwnerReferences = [],
             Finalizers = [],
             PodTemplateSpec.Spec =
               \<lparr>Containers = [\<lparr>Container.Name = ''app'', Image = ''nginx:latest''\<rparr>]\<rparr>\<rparr>\<rparr>,
       Deployment.Status =
         \<lparr>DeploymentStatus.Replicas = 0, ReadyReplicas = 0,
          DeploymentStatus.AvailableReplicas = 0\<rparr>\<rparr>)"

definition controller_Reconcile ::
  "CustomDeploymentController \<Rightarrow> Request \<Rightarrow> Call list \<times> Result \<times> error option" where
  "controller_Reconcile c req =
     (let key = NamespacedName req in
      case Get_CustomDeployment (Client c) key of
        Inl err \<Rightarrow> ([CallGetCustomDeployment key], Result_empty, IgnoreNotFound err)
      | Inr cd \<Rightarrow>
          (let dkey = \<lparr>NamespacedName.Namespace = Namespace cd, NamespacedName.Name = Name cd\<rparr>;
               converged =
                 (case Get_Deployment (Client c) dkey of
                    Inl err \<Rightarrow>
                      if IsNotFound err then
                        (case SetControllerReference cd (controller_desiredDeployment cd) (Scheme c) of
                           Inl err \<Rightarrow> ([CallGetDeployment dkey], Inl err)
                         | Inr deploy \<Rightarrow>
                             (case Create_Deployment (Client c) deploy of
                                Inl err \<Rightarrow> ([CallGetDeployment dkey, CallCreate deploy], Inl err)
                              | Inr created \<Rightarrow>
                                  ([CallGetDeployment dkey, CallCreate deploy], Inr created)))
                      else ([CallGetDeployment dkey], Inl err)
                  | Inr deploy \<Rightarrow>
                      if (case DeploymentSpec.Replicas (Deployment.Spec deploy) of
                            None \<Rightarrow> True
                          | Some r \<Rightarrow> r \<noteq> CustomDeploymentSpec.Replicas (CustomDeployment.Spec cd))
                      then
                        (let deploy = deploy\<lparr>Deployment.Spec := (Deployment.Spec deploy)
                               \<lparr>DeploymentSpec.Replicas :=
                                  Some (CustomDeploymentSpec.Replicas (CustomDeployment.Spec cd))\<rparr>\<rparr> in
                         case Update_Deployment (Client c) deploy of
                           Inl err \<Rightarrow>
                             ([CallGetDeployment dkey, CallUpdateDeployment deploy], Inl err)
                         | Inr updated \<Rightarrow>
                             ([CallGetDeployment dkey, CallUpdateDeployment deploy], Inr updated))
                      else ([CallGetDeployment dkey], Inr deploy))
           in case converged of
                (calls, Inl err) \<Rightarrow> (CallGetCustomDeployment key # calls, Result_empty, Some err)
              | (calls, Inr deploy) \<Rightarrow>
                  if CustomDeploymentStatus.AvailableReplicas (CustomDeployment.Status cd)
                       \<noteq> DeploymentStatus.AvailableReplicas (Deployment.Status deploy)
                  then
                    (let cd = cd\<lparr>CustomDeployment.Status := (CustomDeployment.Status cd)
                           \<lparr>CustomDeploymentStatus.AvailableReplicas :=
                              DeploymentStatus.AvailableReplicas (Deployment.Status deploy)\<rparr>\<rparr> in
                     case Status_Update (Client c) cd of
                       Inl err \<Rightarrow>
                         (CallGetCustomDeployment key # calls @ [CallStatusUpdate cd],
                          Result_empty, Some err)
                     | Inr written \<Rightarrow>
                         (CallGetCustomDeployment key # calls @ [CallStatusUpdate cd],
                          Result_empty, None))
                  else (CallGetCustomDeployment key # calls, Result_empty, None)))"

subsection \<open>Reading a pass\<close>

text \<open>
  The writes among the calls of a pass, and the three components of what a pass
  returns.
\<close>

fun isWrite :: "Call \<Rightarrow> bool" where
  "isWrite (CallGetCustomDeployment k) = False"
| "isWrite (CallGetDeployment k) = False"
| "isWrite (CallCreate d) = True"
| "isWrite (CallUpdateDeployment d) = True"
| "isWrite (CallUpdateCustomDeployment cd) = True"
| "isWrite (CallDelete d) = True"
| "isWrite (CallStatusUpdate cd) = True"

fun isCreate :: "Call \<Rightarrow> bool" where
  "isCreate (CallCreate d) = True"
| "isCreate other = False"

fun isUpdate :: "Call \<Rightarrow> bool" where
  "isUpdate (CallUpdateDeployment d) = True"
| "isUpdate (CallUpdateCustomDeployment cd) = True"
| "isUpdate other = False"

fun isStatusUpdate :: "Call \<Rightarrow> bool" where
  "isStatusUpdate (CallStatusUpdate cd) = True"
| "isStatusUpdate other = False"

definition calls :: "Call list \<times> 'a \<Rightarrow> Call list" where
  "calls pass = fst pass"

definition writes :: "Call list \<times> 'a \<Rightarrow> Call list" where
  "writes pass = filter isWrite (fst pass)"

definition returned :: "Call list \<times> 'a \<Rightarrow> 'a" where
  "returned pass = snd pass"

subsection \<open>Notions used in the statements\<close>

text \<open>
  The key under which both controllers look the dependent Deployment up:
  \<^verbatim>\<open>types.NamespacedName{Name: cd.Name, Namespace: cd.Namespace}\<close>.
\<close>

definition dependentKey :: "CustomDeployment \<Rightarrow> NamespacedName" where
  "dependentKey cd = \<lparr>NamespacedName.Namespace = Namespace cd, NamespacedName.Name = Name cd\<rparr>"

text \<open>A read that answers with a not-found error, and the error of a write, if any.\<close>

definition answersNotFound :: "error + 'a \<Rightarrow> bool" where
  "answersNotFound answer = (case answer of Inl err \<Rightarrow> IsNotFound err | Inr ob \<Rightarrow> False)"

definition errorOf :: "error + 'a \<Rightarrow> error option" where
  "errorOf answer = (case answer of Inl err \<Rightarrow> Some err | Inr ob \<Rightarrow> None)"

text \<open>
  A label selector that only has \<^verbatim>\<open>matchLabels\<close> selects the label sets that carry
  each of its pairs.
\<close>

definition selects :: "LabelSelector \<Rightarrow> (string \<rightharpoonup> string) \<Rightarrow> bool" where
  "selects sel labels = (\<forall>k \<in> dom (MatchLabels sel). labels k = MatchLabels sel k)"

text \<open>
  The states a pass leaves alone, in the terms of the state machine: the parent cannot be
  read; or it is active, carries the finalizer, and its dependent either exists with the
  desired replica count and the published number of available replicas, or cannot be read
  for another reason than not-found, or is missing while no owner reference can be set;
  or deletion is requested and the finalizer is absent, or the dependent is already
  terminating, or cannot be read for another reason than not-found.
\<close>

definition settled :: "CustomDeploymentController \<Rightarrow> Request \<Rightarrow> bool" where
  "settled c req =
     (case Get_CustomDeployment (Client c) (NamespacedName req) of
        Inl err \<Rightarrow> True
      | Inr cd \<Rightarrow>
          (case Get_Deployment (Client c) (dependentKey cd) of
             Inl err \<Rightarrow>
               if IsZero (DeletionTimestamp cd) then
                 ContainsFinalizer cd customDeploymentFinalizer
                 \<and> (IsNotFound err \<longrightarrow>
                       isl (SetControllerReference cd (desiredDeployment cd) (Scheme c)))
               else ContainsFinalizer cd customDeploymentFinalizer \<longrightarrow> \<not> IsNotFound err
           | Inr deploy \<Rightarrow>
               if IsZero (DeletionTimestamp cd) then
                 ContainsFinalizer cd customDeploymentFinalizer
                 \<and> DeploymentSpec.Replicas (Deployment.Spec deploy)
                     = Some (CustomDeploymentSpec.Replicas (CustomDeployment.Spec cd))
                 \<and> DeploymentStatus.AvailableReplicas (Deployment.Status deploy)
                     = CustomDeploymentStatus.AvailableReplicas (CustomDeployment.Status cd)
               else ContainsFinalizer cd customDeploymentFinalizer
                      \<longrightarrow> \<not> IsZero (DeletionTimestamp deploy)))"

subsection \<open>Example objects and clients\<close>

text \<open>
  The CustomDeployment \<^verbatim>\<open>ns/foo\<close> asking for five replicas, with the finalizer
  (\<open>foo\<close>), before the finalizer was added (\<open>foo_new\<close>), with deletion requested
  (\<open>foo_deleting\<close>) and with deletion requested and the finalizer gone
  (\<open>foo_purgeable\<close>); its Deployment with a given replica count and number of available
  replicas; a client that answers every read from one cached parent and one cached
  dependent and accepts every write, returning the object as sent; and that client with
  every Update of the parent rejected by a conflict.
\<close>

definition not_found :: error where
  "not_found = StatusError StatusReasonNotFound"

definition foo :: CustomDeployment where
  "foo = \<lparr>Name = ''foo'', Namespace = ''ns'', UID = ''uid-foo'', ResourceVersion = ''7'',
          DeletionTimestamp = None, Labels = Map.empty, Annotations = Map.empty,
          OwnerReferences = [], Finalizers = [''apps.myorg.io/finalizer''],
          CustomDeployment.Spec = \<lparr>CustomDeploymentSpec.Replicas = 5\<rparr>,
          CustomDeployment.Status = \<lparr>CustomDeploymentStatus.AvailableReplicas = 0\<rparr>\<rparr>"

definition foo_new :: CustomDeployment where
  "foo_new = foo\<lparr>Finalizers := []\<rparr>"

definition foo_deleting :: CustomDeployment where
  "foo_deleting = foo\<lparr>DeletionTimestamp := Some 1700000000\<rparr>"

definition foo_purgeable :: CustomDeployment where
  "foo_purgeable = foo\<lparr>DeletionTimestamp := Some 1700000000, Finalizers := []\<rparr>"

definition foo_request :: Request where
  "foo_request =
     \<lparr>NamespacedName = \<lparr>NamespacedName.Namespace = ''ns'', NamespacedName.Name = ''foo''\<rparr>\<rparr>"

definition foo_deployment :: "int32 \<Rightarrow> int32 \<Rightarrow> Deployment" where
  "foo_deployment replicas available =
     (desiredDeployment foo)
       \<lparr>UID := ''uid-dep'', ResourceVersion := ''9'',
        Deployment.Spec := (Deployment.Spec (desiredDeployment foo))
          \<lparr>DeploymentSpec.Replicas := Some replicas\<rparr>,
        Deployment.Status :=
          \<lparr>DeploymentStatus.Replicas = replicas, ReadyReplicas = available,
           DeploymentStatus.AvailableReplicas = available\<rparr>\<rparr>"

definition cache_client :: "(error + CustomDeployment) \<Rightarrow> (error + Deployment) \<Rightarrow> Client" where
  "cache_client parent dependent =
     \<lparr>Get_CustomDeployment = (\<lambda>key. parent),
      Get_Deployment = (\<lambda>key. dependent),
      Create_Deployment = Inr,
      Update_Deployment = Inr,
      Update_CustomDeployment = Inr,
      Delete_Deployment = (\<lambda>deploy. None),
      Status_Update = Inr\<rparr>"

definition conflicting :: "Client \<Rightarrow> Client" where
  "conflicting cl =
     cl\<lparr>Update_CustomDeployment := (\<lambda>cd. Inl (StatusError StatusReasonConflict))\<rparr>"

section \<open>Properties of the controllers\<close>

subsection \<open>The branches of a pass\<close>

text \<open>
  The comparison \<^verbatim>\<open>deploy.Spec.Replicas == nil || *deploy.Spec.Replicas != cd.Spec.Replicas\<close>
  holds exactly if the replica count of the Deployment is not the desired one.
\<close>

lemma drift_iff:
  "(case r of None \<Rightarrow> True | Some x \<Rightarrow> x \<noteq> v) \<longleftrightarrow> r \<noteq> Some v"
  by (cases r) auto

text \<open>
  What \<open>convergeDeployment\<close> does on each answer of the read of the dependent.
\<close>

lemma converge_get_error:
  assumes "Get_Deployment (Client c) (dependentKey cd) = Inl err" and "\<not> IsNotFound err"
  shows "convergeDeployment c cd = ([CallGetDeployment (dependentKey cd)], Inl err)"
  using assms by (simp add: convergeDeployment_def dependentKey_def)

lemma converge_not_found:
  assumes "Get_Deployment (Client c) (dependentKey cd) = Inl err" and "IsNotFound err"
  shows "convergeDeployment c cd =
     (case SetControllerReference cd (desiredDeployment cd) (Scheme c) of
        Inl e \<Rightarrow> ([CallGetDeployment (dependentKey cd)], Inl e)
      | Inr deploy \<Rightarrow>
          ([CallGetDeployment (dependentKey cd), CallCreate deploy],
           Create_Deployment (Client c) deploy))"
  using assms by (simp add: convergeDeployment_def dependentKey_def Let_def split: sum.split)

lemma converge_agree:
  assumes "Get_Deployment (Client c) (dependentKey cd) = Inr deploy"
    and "DeploymentSpec.Replicas (Deployment.Spec deploy)
           = Some (CustomDeploymentSpec.Replicas (CustomDeployment.Spec cd))"
  shows "convergeDeployment c cd = ([CallGetDeployment (dependentKey cd)], Inr deploy)"
  using assms by (simp add: convergeDeployment_def dependentKey_def)

lemma converge_drift:
  assumes "Get_Deployment (Client c) (dependentKey cd) = Inr deploy"
    and "DeploymentSpec.Replicas (Deployment.Spec deploy)
           \<noteq> Some (CustomDeploymentSpec.Replicas (CustomDeployment.Spec cd))"
  shows "convergeDeployment c cd =
     ([CallGetDeployment (dependentKey cd),
       CallUpdateDeployment (deploy\<lparr>Deployment.Spec := (Deployment.Spec deploy)
          \<lparr>DeploymentSpec.Replicas :=
             Some (CustomDeploymentSpec.Replicas (CustomDeployment.Spec cd))\<rparr>\<rparr>)],
      Update_Deployment (Client c) (deploy\<lparr>Deployment.Spec := (Deployment.Spec deploy)
          \<lparr>DeploymentSpec.Replicas :=
             Some (CustomDeploymentSpec.Replicas (CustomDeployment.Spec cd))\<rparr>\<rparr>))"
  using assms
  by (simp add: convergeDeployment_def dependentKey_def drift_iff Let_def split: sum.split)

lemma converge_no_status_update:
  "filter isStatusUpdate (fst (convergeDeployment c cd)) = []"
proof (cases "Get_Deployment (Client c) (dependentKey cd)")
  case (Inl err)
  then show ?thesis
    by (cases "IsNotFound err")
       (simp_all add: converge_get_error converge_not_found split: sum.split)
next
  case (Inr deploy)
  then show ?thesis
    by (cases "DeploymentSpec.Replicas (Deployment.Spec deploy)
                 = Some (CustomDeploymentSpec.Replicas (CustomDeployment.Spec cd))")
       (simp_all add: converge_agree converge_drift)
qed

text \<open>
  The calls of \<open>publishStatus\<close> and of \<open>handleCreateOrUpdate\<close>.
\<close>

lemma publishStatus_calls:
  "fst (publishStatus c cd deploy) =
     (if CustomDeploymentStatus.AvailableReplicas (CustomDeployment.Status cd)
           \<noteq> DeploymentStatus.AvailableReplicas (Deployment.Status deploy)
      then [CallStatusUpdate (cd\<lparr>CustomDeployment.Status := (CustomDeployment.Status cd)
               \<lparr>CustomDeploymentStatus.AvailableReplicas :=
                  DeploymentStatus.AvailableReplicas (Deployment.Status deploy)\<rparr>\<rparr>)]
      else [])"
  by (simp add: publishStatus_def Let_def split: sum.split)

lemma publishStatus_only_status:
  "filter isCreate (fst (publishStatus c cd deploy)) = []
   \<and> filter isUpdate (fst (publishStatus c cd deploy)) = []"
  by (simp add: publishStatus_calls)

lemma handleCreateOrUpdate_calls:
  "fst (handleCreateOrUpdate c cd) =
     (case convergeDeployment c cd of
        (cs, Inl err) \<Rightarrow> cs
      | (cs, Inr deploy) \<Rightarrow> cs @ fst (publishStatus c cd deploy))"
  by (simp add: handleCreateOrUpdate_def split: prod.split sum.split)

text \<open>
  What \<open>handleDeletion\<close> does on each answer of the read of the dependent.
\<close>

lemma handleDeletion_not_found:
  assumes "Get_Deployment (Client c) (dependentKey cd) = Inl err" and "IsNotFound err"
  shows "handleDeletion c cd = ([CallGetDeployment (dependentKey cd)], True, None)"
  using assms by (simp add: handleDeletion_def dependentKey_def Let_def)

lemma handleDeletion_get_error:
  assumes "Get_Deployment (Client c) (dependentKey cd) = Inl err" and "\<not> IsNotFound err"
  shows "handleDeletion c cd = ([CallGetDeployment (dependentKey cd)], False, Some err)"
  using assms by (simp add: handleDeletion_def dependentKey_def Let_def)

lemma handleDeletion_present:
  assumes "Get_Deployment (Client c) (dependentKey cd) = Inr deploy"
  shows "fst (snd (handleDeletion c cd)) = False
         \<and> fst (handleDeletion c cd) =
             (if IsZero (DeletionTimestamp deploy)
              then [CallGetDeployment (dependentKey cd), CallDelete deploy]
              else [CallGetDeployment (dependentKey cd)])"
  using assms by (simp add: handleDeletion_def dependentKey_def Let_def split: option.split)

lemma handleDeletion_error:
  assumes "handleDeletion c cd = (cs, deleted, Some err)"
  shows "\<not> deleted"
  using assms
  by (auto simp add: handleDeletion_def Let_def split: sum.splits if_splits option.splits)

text \<open>
  The five branches of \<open>Reconcile\<close>: the parent cannot be read; it is active without
  the finalizer; active with it; deletion is requested with the finalizer present; and
  without it.
\<close>

lemma Reconcile_parent_unread:
  assumes "Get_CustomDeployment (Client c) (NamespacedName req) = Inl err"
  shows "Reconcile c req =
           ([CallGetCustomDeployment (NamespacedName req)], Result_empty, IgnoreNotFound err)"
  using assms by (simp add: Reconcile_def Let_def)

lemma Reconcile_new:
  assumes "Get_CustomDeployment (Client c) (NamespacedName req) = Inr cd"
    and "IsZero (DeletionTimestamp cd)"
    and "\<not> ContainsFinalizer cd customDeploymentFinalizer"
  shows "Reconcile c req =
           ([CallGetCustomDeployment (NamespacedName req),
             CallUpdateCustomDeployment (AddFinalizer cd customDeploymentFinalizer)],
            Result_empty,
            errorOf (Update_CustomDeployment (Client c) (AddFinalizer cd customDeploymentFinalizer)))"
  using assms by (simp add: Reconcile_def Let_def errorOf_def split: sum.split)

lemma Reconcile_active:
  assumes "Get_CustomDeployment (Client c) (NamespacedName req) = Inr cd"
    and "IsZero (DeletionTimestamp cd)"
    and "ContainsFinalizer cd customDeploymentFinalizer"
  shows "Reconcile c req =
           (CallGetCustomDeployment (NamespacedName req) # fst (handleCreateOrUpdate c cd),
            Result_empty, snd (handleCreateOrUpdate c cd))"
proof (cases "handleCreateOrUpdate c cd")
  case (Pair cs res)
  with assms show ?thesis
    by (cases res) (simp_all add: Reconcile_def)
qed

lemma Reconcile_deleting:
  assumes "Get_CustomDeployment (Client c) (NamespacedName req) = Inr cd"
    and "\<not> IsZero (DeletionTimestamp cd)"
    and "ContainsFinalizer cd customDeploymentFinalizer"
  shows "Reconcile c req =
     (case handleDeletion c cd of
        (cs, deleted, Some err) \<Rightarrow> (CallGetCustomDeployment (NamespacedName req) # cs, Result_empty, Some err)
      | (cs, deleted, None) \<Rightarrow>
          if deleted then
            (CallGetCustomDeployment (NamespacedName req) # cs
               @ [CallUpdateCustomDeployment (RemoveFinalizer cd customDeploymentFinalizer)],
             Result_empty,
             errorOf (Update_CustomDeployment (Client c) (RemoveFinalizer cd customDeploymentFinalizer)))
          else (CallGetCustomDeployment (NamespacedName req) # cs, Result_empty, None))"
  using assms
  by (simp add: Reconcile_def Let_def errorOf_def split: prod.split option.split sum.split)

lemma Reconcile_purgeable:
  assumes "Get_CustomDeployment (Client c) (NamespacedName req) = Inr cd"
    and "\<not> IsZero (DeletionTimestamp cd)"
    and "\<not> ContainsFinalizer cd customDeploymentFinalizer"
  shows "Reconcile c req = ([CallGetCustomDeployment (NamespacedName req)], Result_empty, None)"
  using assms by (simp add: Reconcile_def Let_def)

text \<open>
  The controller without finalizers does, on every parent it can read, what the
  finalizer-aware one does on an active parent that carries the finalizer.
\<close>

lemma controller_desiredDeployment_eq: "controller_desiredDeployment cd = desiredDeployment cd"
  by (simp add: controller_desiredDeployment_def desiredDeployment_def)

lemma controller_Reconcile_found:
  assumes "Get_CustomDeployment (Client c) (NamespacedName req) = Inr cd"
  shows "controller_Reconcile c req =
           (CallGetCustomDeployment (NamespacedName req) # fst (handleCreateOrUpdate c cd),
            Result_empty, snd (handleCreateOrUpdate c cd))"
proof -
  let ?key = "\<lparr>NamespacedName.Namespace = Namespace cd, NamespacedName.Name = Name cd\<rparr>"
  show ?thesis
  proof (cases "Get_Deployment (Client c) ?key")
    case (Inl err)
    show ?thesis
    proof (cases "IsNotFound err")
      case False
      with Inl assms show ?thesis
        by (simp add: controller_Reconcile_def handleCreateOrUpdate_def convergeDeployment_def)
    next
      case True
      show ?thesis
      proof (cases "SetControllerReference cd (desiredDeployment cd) (Scheme c)")
        case (Inl e)
        with True \<open>Get_Deployment (Client c) ?key = Inl err\<close> assms show ?thesis
          by (simp add: controller_Reconcile_def handleCreateOrUpdate_def convergeDeployment_def
              controller_desiredDeployment_eq)
      next
        case (Inr deploy)
        with True \<open>Get_Deployment (Client c) ?key = Inl err\<close> assms show ?thesis
          by (cases "Create_Deployment (Client c) deploy")
             (simp_all add: controller_Reconcile_def handleCreateOrUpdate_def convergeDeployment_def
              controller_desiredDeployment_eq publishStatus_def Let_def split: sum.split)
      qed
    qed
  next
    case (Inr deploy)
    let ?d = "deploy\<lparr>Deployment.Spec := (Deployment.Spec deploy)
                   \<lparr>DeploymentSpec.Replicas :=
                      Some (CustomDeploymentSpec.Replicas (CustomDeployment.Spec cd))\<rparr>\<rparr>"
    show ?thesis
    proof (cases "DeploymentSpec.Replicas (Deployment.Spec deploy)
                    = Some (CustomDeploymentSpec.Replicas (CustomDeployment.Spec cd))")
      case True
      with Inr assms show ?thesis
        by (simp add: controller_Reconcile_def handleCreateOrUpdate_def convergeDeployment_def
              publishStatus_def Let_def split: sum.split)
    next
      case False
      then have drift: "(case DeploymentSpec.Replicas (Deployment.Spec deploy) of
                None \<Rightarrow> True
              | Some r \<Rightarrow> r \<noteq> CustomDeploymentSpec.Replicas (CustomDeployment.Spec cd))"
        by (auto split: option.split)
      from Inr assms drift show ?thesis
        by (cases "Update_Deployment (Client c) ?d")
           (simp_all add: controller_Reconcile_def handleCreateOrUpdate_def convergeDeployment_def
              publishStatus_def Let_def split: sum.split)
    qed
  qed
qed

subsection \<open>The owner reference under the scheme of \<^verbatim>\<open>main\<close>\<close>

text \<open>
  The scheme that \<^verbatim>\<open>main\<close> builds knows the type \<^verbatim>\<open>CustomDeployment\<close> under
  one kind, and the desired Deployment is in the namespace of its owner and has no owner
  yet, so that \<open>SetControllerReference\<close> succeeds on it.
\<close>

lemma GVKForObject_main_scheme:
  "GVKForObject CustomDeploymentType main_scheme =
     Inr \<lparr>Group = ''apps.myorg.io'', Version = ''v1alpha1'',
          GroupVersionKind.Kind = ''CustomDeployment''\<rparr>"
  by (simp add: GVKForObject_def main_scheme_def corev1_AddToScheme_def appsv1_AddToScheme_def
      AddToScheme_def addKnownTypes_def metav1_AddToGroupVersion_def AddKnownTypes_def
      NewScheme_def GroupVersion_def)

lemma SetControllerReference_desired:
  "SetControllerReference cd (desiredDeployment cd) main_scheme =
     Inr ((desiredDeployment cd)\<lparr>OwnerReferences :=
       [\<lparr>APIVersion = ''apps.myorg.io/v1alpha1'',
         OwnerReference.Kind = ''CustomDeployment'',
         OwnerReference.Name = Name cd,
         OwnerReference.UID = UID cd,
         Controller = Some True,
         BlockOwnerDeletion = Some True\<rparr>]\<rparr>)"
proof -
  have owner: "validateOwner cd (desiredDeployment cd) = None"
    by (simp add: validateOwner_def desiredDeployment_def Let_def)
  have refs: "OwnerReferences (desiredDeployment cd) = []"
    by (simp add: desiredDeployment_def Let_def)
  have ctl: "validateControllerRef ref (desiredDeployment cd) = None" for ref
    by (simp add: validateControllerRef_def GetControllerOf_def refs)
  have ups: "upsertOwnerRef ref (desiredDeployment cd)
               = (desiredDeployment cd)\<lparr>OwnerReferences := [ref]\<rparr>" for ref
    by (simp add: upsertOwnerRef_def refs)
  show ?thesis
    by (simp add: SetControllerReference_def owner GVKForObject_main_scheme ctl ups
        GroupVersion_String_def)
qed

subsection \<open>Passes without writes\<close>

lemma writes_handleCreateOrUpdate:
  "filter isWrite (fst (handleCreateOrUpdate c cd)) = [] \<longleftrightarrow>
     (case Get_Deployment (Client c) (dependentKey cd) of
        Inl err \<Rightarrow>
          IsNotFound err \<longrightarrow> isl (SetControllerReference cd (desiredDeployment cd) (Scheme c))
      | Inr deploy \<Rightarrow>
          DeploymentSpec.Replicas (Deployment.Spec deploy)
            = Some (CustomDeploymentSpec.Replicas (CustomDeployment.Spec cd))
          \<and> DeploymentStatus.AvailableReplicas (Deployment.Status deploy)
              = CustomDeploymentStatus.AvailableReplicas (CustomDeployment.Status cd))"
proof (cases "Get_Deployment (Client c) (dependentKey cd)")
  case (Inl err)
  show ?thesis
  proof (cases "IsNotFound err")
    case False
    with Inl show ?thesis
      by (simp add: handleCreateOrUpdate_calls converge_get_error)
  next
    case True
    with Inl show ?thesis
      by (cases "SetControllerReference cd (desiredDeployment cd) (Scheme c)")
         (simp_all add: handleCreateOrUpdate_calls converge_not_found split: sum.split)
  qed
next
  case (Inr deploy)
  show ?thesis
  proof (cases "DeploymentSpec.Replicas (Deployment.Spec deploy)
                  = Some (CustomDeploymentSpec.Replicas (CustomDeployment.Spec cd))")
    case True
    with Inr show ?thesis
      by (auto simp add: handleCreateOrUpdate_calls converge_agree publishStatus_calls)
  next
    case False
    with Inr show ?thesis
      by (simp add: handleCreateOrUpdate_calls converge_drift split: sum.split)
  qed
qed

lemma writes_handleDeletion:
  "filter isWrite (fst (handleDeletion c cd)) = [] \<and> \<not> fst (snd (handleDeletion c cd)) \<longleftrightarrow>
     (case Get_Deployment (Client c) (dependentKey cd) of
        Inl err \<Rightarrow> \<not> IsNotFound err
      | Inr deploy \<Rightarrow> \<not> IsZero (DeletionTimestamp deploy))"
proof (cases "Get_Deployment (Client c) (dependentKey cd)")
  case (Inl err)
  then show ?thesis
    by (cases "IsNotFound err") (simp_all add: handleDeletion_not_found handleDeletion_get_error)
next
  case (Inr deploy)
  then show ?thesis
    using handleDeletion_present [OF Inr] by simp
qed

lemma writes_nothing_iff_settled: "writes (Reconcile c req) = [] \<longleftrightarrow> settled c req"
proof (cases "Get_CustomDeployment (Client c) (NamespacedName req)")
  case (Inl err)
  then show ?thesis
    by (simp add: writes_def settled_def Reconcile_parent_unread)
next
  case (Inr cd)
  show ?thesis
  proof (cases "IsZero (DeletionTimestamp cd)")
    case True
    show ?thesis
    proof (cases "ContainsFinalizer cd customDeploymentFinalizer")
      case False
      with Inr True show ?thesis
        by (simp add: writes_def settled_def Reconcile_new split: sum.split)
    next
      case fin: True
      have "writes (Reconcile c req) = filter isWrite (fst (handleCreateOrUpdate c cd))"
        by (simp add: writes_def Reconcile_active [OF Inr True fin])
      with Inr True fin show ?thesis
        by (simp add: settled_def writes_handleCreateOrUpdate split: sum.split)
    qed
  next
    case False
    show ?thesis
    proof (cases "ContainsFinalizer cd customDeploymentFinalizer")
      case nofin: False
      with Inr False show ?thesis
        by (simp add: writes_def settled_def Reconcile_purgeable split: sum.split)
    next
      case fin: True
      obtain cs deleted res where hd: "handleDeletion c cd = (cs, deleted, res)"
        by (cases "handleDeletion c cd") auto
      have "writes (Reconcile c req) = [] \<longleftrightarrow> filter isWrite cs = [] \<and> \<not> deleted"
        using handleDeletion_error [of c cd cs deleted]
        by (cases res) (auto simp add: writes_def Reconcile_deleting [OF Inr False fin] hd)
      moreover have "filter isWrite cs = [] \<and> \<not> deleted \<longleftrightarrow>
         (case Get_Deployment (Client c) (dependentKey cd) of
            Inl err \<Rightarrow> \<not> IsNotFound err
          | Inr deploy \<Rightarrow> \<not> IsZero (DeletionTimestamp deploy))"
        using writes_handleDeletion [of c cd] by (simp add: hd)
      ultimately show ?thesis
        using Inr False fin by (simp add: settled_def split: sum.split)
    qed
  qed
qed

subsection \<open>The example objects\<close>

lemma foo_facts:
  "Name foo = ''foo''" "Namespace foo = ''ns''" "UID foo = ''uid-foo''"
  "DeletionTimestamp foo = None" "Finalizers foo = [''apps.myorg.io/finalizer'']"
  "CustomDeploymentSpec.Replicas (CustomDeployment.Spec foo) = 5"
  "CustomDeploymentStatus.AvailableReplicas (CustomDeployment.Status foo) = 0"
  by (simp_all add: foo_def)

lemma foo_deployment_facts:
  "DeploymentSpec.Replicas (Deployment.Spec (foo_deployment r a)) = Some r"
  "DeploymentStatus.AvailableReplicas (Deployment.Status (foo_deployment r a)) = a"
  "DeletionTimestamp (foo_deployment r a) = None"
  by (simp_all add: foo_deployment_def desiredDeployment_def Let_def)

lemma cache_client_reads:
  "Get_CustomDeployment (Client (main_reconciler (cache_client parent dependent))) key = parent"
  "Get_Deployment (Client (main_reconciler (cache_client parent dependent))) dkey = dependent"
  by (simp_all add: main_reconciler_def cache_client_def)

text \<open>
  Once the finalizer of \<open>foo_new\<close> is stored, the next pass reads \<open>foo\<close>, finds
  no dependent and creates it: a pass that follows a pass with a write may write as well.
\<close>

lemma Reconcile_next_pass_creates:
  "writes (Reconcile (main_reconciler (cache_client (Inr foo) (Inl not_found))) foo_request)
     = [CallCreate ((desiredDeployment foo)\<lparr>OwnerReferences :=
         [\<lparr>APIVersion = ''apps.myorg.io/v1alpha1'',
           OwnerReference.Kind = ''CustomDeployment'',
           OwnerReference.Name = ''foo'',
           OwnerReference.UID = ''uid-foo'',
           Controller = Some True,
           BlockOwnerDeletion = Some True\<rparr>]\<rparr>)]"
proof -
  let ?c = "main_reconciler (cache_client (Inr foo) (Inl not_found))"
  let ?d = "(desiredDeployment foo)\<lparr>OwnerReferences :=
         [\<lparr>APIVersion = ''apps.myorg.io/v1alpha1'',
           OwnerReference.Kind = ''CustomDeployment'',
           OwnerReference.Name = Name foo,
           OwnerReference.UID = UID foo,
           Controller = Some True,
           BlockOwnerDeletion = Some True\<rparr>]\<rparr>"
  have h: "Get_CustomDeployment (Client ?c) (NamespacedName foo_request) = Inr foo"
    "IsZero (DeletionTimestamp foo)" "ContainsFinalizer foo customDeploymentFinalizer"
    by (simp_all add: cache_client_reads foo_facts ContainsFinalizer_def
        customDeploymentFinalizer_def)
  have sch: "Scheme ?c = main_scheme" and cr: "Create_Deployment (Client ?c) = Inr"
    by (simp_all add: main_reconciler_def cache_client_def)
  have conv: "convergeDeployment ?c foo
                = ([CallGetDeployment (dependentKey foo), CallCreate ?d], Inr ?d)"
    using converge_not_found [of ?c foo not_found]
    by (simp add: cache_client_reads [of _ "Inl not_found"] sch cr SetControllerReference_desired)
       (simp add: not_found_def)
  have st: "DeploymentStatus.AvailableReplicas (Deployment.Status (desiredDeployment foo)) = 0"
    by (simp add: desiredDeployment_def Let_def)
  have "fst (handleCreateOrUpdate ?c foo) = [CallGetDeployment (dependentKey foo), CallCreate ?d]"
    by (simp add: handleCreateOrUpdate_calls conv publishStatus_calls st foo_facts)
  then show ?thesis
    by (simp add: writes_def Reconcile_active [OF h] foo_facts)
qed

section \<open>The claims\<close>

subsection \<open>Idempotence\<close>

text \<open>
  Claim C1, as the code has it. Whether a pass writes depends only on what it reads and on
  the scheme. So when Reconcile is invoked a second time and reads what the first call
  read, the second call performs no write exactly if the first performed none, and that
  is exactly if the state read is settled (\<open>settled\<close>); whatever the client answered
  to the writes of the first call does not matter.
\<close>

theorem second_call_writes_unless_settled:
  assumes "Get_CustomDeployment (Client second) = Get_CustomDeployment (Client first)"
    and "Get_Deployment (Client second) = Get_Deployment (Client first)"
    and "Scheme second = Scheme first"
  shows "(writes (Reconcile second req) = [] \<longleftrightarrow> settled first req)
       \<and> (writes (Reconcile second req) = [] \<longleftrightarrow> writes (Reconcile first req) = [])"
proof -
  have "settled second req = settled first req"
    by (simp add: settled_def assms cong: sum.case_cong)
  then show ?thesis
    by (simp add: writes_nothing_iff_settled)
qed

text \<open>
  A settled state: \<open>foo\<close> with its Deployment at five replicas, none available, as
  published. The first call is answered by the plain client, the second by the client
  that rejects updates of the parent; neither writes.
\<close>

theorem second_call_writes_unless_settled_witness:
  "Get_CustomDeployment
       (Client (main_reconciler (conflicting (cache_client (Inr foo) (Inr (foo_deployment 5 0))))))
     = Get_CustomDeployment
         (Client (main_reconciler (cache_client (Inr foo) (Inr (foo_deployment 5 0)))))
   \<and> Get_Deployment
       (Client (main_reconciler (conflicting (cache_client (Inr foo) (Inr (foo_deployment 5 0))))))
     = Get_Deployment
         (Client (main_reconciler (cache_client (Inr foo) (Inr (foo_deployment 5 0)))))
   \<and> settled (main_reconciler (cache_client (Inr foo) (Inr (foo_deployment 5 0)))) foo_request
   \<and> writes (Reconcile
         (main_reconciler (conflicting (cache_client (Inr foo) (Inr (foo_deployment 5 0)))))
         foo_request) = []"
proof -
  let ?first = "main_reconciler (cache_client (Inr foo) (Inr (foo_deployment 5 0)))"
  let ?second = "main_reconciler (conflicting (cache_client (Inr foo) (Inr (foo_deployment 5 0))))"
  have h: "Get_CustomDeployment (Client ?second) = Get_CustomDeployment (Client ?first)"
    "Get_Deployment (Client ?second) = Get_Deployment (Client ?first)"
    "Scheme ?second = Scheme ?first"
    by (simp_all add: main_reconciler_def conflicting_def cache_client_def)
  have s: "settled ?first foo_request"
    by (simp add: settled_def cache_client_reads foo_facts foo_deployment_facts
        ContainsFinalizer_def customDeploymentFinalizer_def)
  from second_call_writes_unless_settled [OF h, of foo_request] s h show ?thesis
    by simp
qed

text \<open>
  The claim as stated fails on \<open>foo_new\<close>: a call that reads it issues the Update
  that adds the finalizer, and so does every further call for which the cache still
  answers with \<open>foo_new\<close>.
\<close>

theorem second_call_repeats_write:
  "writes (Reconcile (main_reconciler (cache_client (Inr foo_new) (Inl not_found))) foo_request)
     = [CallUpdateCustomDeployment foo]"
proof -
  let ?c = "main_reconciler (cache_client (Inr foo_new) (Inl not_found))"
  have h: "Get_CustomDeployment (Client ?c) (NamespacedName foo_request) = Inr foo_new"
    "IsZero (DeletionTimestamp foo_new)"
    "\<not> ContainsFinalizer foo_new customDeploymentFinalizer"
    by (simp_all add: cache_client_reads foo_new_def foo_facts ContainsFinalizer_def)
  have "AddFinalizer foo_new customDeploymentFinalizer = foo"
    by (simp add: AddFinalizer_def foo_new_def foo_def customDeploymentFinalizer_def)
  then show ?thesis
    by (simp add: writes_def Reconcile_new [OF h])
qed

subsection \<open>Teardown\<close>

text \<open>
  Claim C2, as the code has it. For a CustomDeployment with deletion requested and the
  finalizer present, Reconcile issues an Update exactly if the read of the dependent
  Deployment answers not-found, and this Update stores the parent with the finalizer
  token removed. In that case the pass consists of the two reads and this Update, and it
  returns what the Update returns: success if the Update is accepted, its error
  otherwise.
\<close>

theorem finalizer_removed_once_dependent_absent:
  assumes "Get_CustomDeployment (Client c) (NamespacedName req) = Inr cd"
    and "\<not> IsZero (DeletionTimestamp cd)"
    and "ContainsFinalizer cd customDeploymentFinalizer"
  shows "filter isUpdate (calls (Reconcile c req)) =
           (if answersNotFound (Get_Deployment (Client c) (dependentKey cd))
            then [CallUpdateCustomDeployment
                    (cd\<lparr>Finalizers :=
                          filter (\<lambda>e. e \<noteq> customDeploymentFinalizer) (Finalizers cd)\<rparr>)]
            else [])
       \<and> (answersNotFound (Get_Deployment (Client c) (dependentKey cd)) \<longrightarrow>
            calls (Reconcile c req) =
              [CallGetCustomDeployment (NamespacedName req),
               CallGetDeployment (dependentKey cd),
               CallUpdateCustomDeployment
                 (cd\<lparr>Finalizers :=
                       filter (\<lambda>e. e \<noteq> customDeploymentFinalizer) (Finalizers cd)\<rparr>)]
            \<and> returned (Reconcile c req) =
                (Result_empty,
                 errorOf (Update_CustomDeployment (Client c)
                   (cd\<lparr>Finalizers :=
                         filter (\<lambda>e. e \<noteq> customDeploymentFinalizer) (Finalizers cd)\<rparr>))))"
proof (cases "Get_Deployment (Client c) (dependentKey cd)")
  case (Inl err)
  show ?thesis
  proof (cases "IsNotFound err")
    case True
    with Inl show ?thesis
      by (simp add: Reconcile_deleting [OF assms] handleDeletion_not_found answersNotFound_def
          calls_def returned_def RemoveFinalizer_def)
  next
    case False
    with Inl show ?thesis
      by (simp add: Reconcile_deleting [OF assms] handleDeletion_get_error answersNotFound_def
          calls_def)
  qed
next
  case (Inr deploy)
  obtain cs deleted res where hd: "handleDeletion c cd = (cs, deleted, res)"
    by (cases "handleDeletion c cd") auto
  from handleDeletion_present [OF Inr] hd
  have "\<not> deleted" and "filter isUpdate cs = []"
    by simp_all
  with Inr show ?thesis
    by (cases res) (simp_all add: Reconcile_deleting [OF assms] hd answersNotFound_def calls_def)
qed

theorem finalizer_removed_once_dependent_absent_witness:
  "Get_CustomDeployment
       (Client (main_reconciler (cache_client (Inr foo_deleting) (Inl not_found))))
       (NamespacedName foo_request) = Inr foo_deleting
   \<and> \<not> IsZero (DeletionTimestamp foo_deleting)
   \<and> ContainsFinalizer foo_deleting customDeploymentFinalizer
   \<and> answersNotFound (Get_Deployment
         (Client (main_reconciler (cache_client (Inr foo_deleting) (Inl not_found))))
         (dependentKey foo_deleting))
   \<and> calls (Reconcile (main_reconciler (cache_client (Inr foo_deleting) (Inl not_found)))
         foo_request) =
       [CallGetCustomDeployment (NamespacedName foo_request),
        CallGetDeployment (dependentKey foo_deleting),
        CallUpdateCustomDeployment foo_purgeable]
   \<and> returned (Reconcile (main_reconciler (cache_client (Inr foo_deleting) (Inl not_found)))
         foo_request) = (Result_empty, None)"
proof -
  let ?c = "main_reconciler (cache_client (Inr foo_deleting) (Inl not_found))"
  have h: "Get_CustomDeployment (Client ?c) (NamespacedName foo_request) = Inr foo_deleting"
    "\<not> IsZero (DeletionTimestamp foo_deleting)"
    "ContainsFinalizer foo_deleting customDeploymentFinalizer"
    by (simp_all add: cache_client_reads foo_deleting_def foo_facts ContainsFinalizer_def
        customDeploymentFinalizer_def)
  have nf: "answersNotFound (Get_Deployment (Client ?c) (dependentKey foo_deleting))"
    by (simp add: cache_client_reads answersNotFound_def not_found_def)
  have rm: "foo_deleting\<lparr>Finalizers :=
              filter (\<lambda>e. e \<noteq> customDeploymentFinalizer) (Finalizers foo_deleting)\<rparr>
            = foo_purgeable"
    by (simp add: foo_deleting_def foo_purgeable_def foo_def customDeploymentFinalizer_def)
  have up: "Update_CustomDeployment (Client ?c) foo_purgeable = Inr foo_purgeable"
    by (simp add: main_reconciler_def cache_client_def)
  from finalizer_removed_once_dependent_absent [OF h] nf h show ?thesis
    by (simp add: rm up errorOf_def)
qed

text \<open>
  The claim as stated promises a success result whenever the dependent is gone. When the
  Update that removes the finalizer is rejected, here by a conflict, the pass returns
  that error.
\<close>

theorem finalizer_removal_rejected:
  "Get_CustomDeployment
       (Client (main_reconciler (conflicting (cache_client (Inr foo_deleting) (Inl not_found)))))
       (NamespacedName foo_request) = Inr foo_deleting
   \<and> \<not> IsZero (DeletionTimestamp foo_deleting)
   \<and> ContainsFinalizer foo_deleting customDeploymentFinalizer
   \<and> Get_Deployment
       (Client (main_reconciler (conflicting (cache_client (Inr foo_deleting) (Inl not_found)))))
       (dependentKey foo_deleting) = Inl (StatusError StatusReasonNotFound)
   \<and> returned (Reconcile
         (main_reconciler (conflicting (cache_client (Inr foo_deleting) (Inl not_found))))
         foo_request) = (Result_empty, Some (StatusError StatusReasonConflict))"
proof -
  let ?c = "main_reconciler (conflicting (cache_client (Inr foo_deleting) (Inl not_found)))"
  have h: "Get_CustomDeployment (Client ?c) (NamespacedName foo_request) = Inr foo_deleting"
    "\<not> IsZero (DeletionTimestamp foo_deleting)"
    "ContainsFinalizer foo_deleting customDeploymentFinalizer"
    by (simp_all add: main_reconciler_def conflicting_def cache_client_def foo_deleting_def
        foo_facts ContainsFinalizer_def customDeploymentFinalizer_def)
  have g: "Get_Deployment (Client ?c) (dependentKey foo_deleting)
             = Inl (StatusError StatusReasonNotFound)"
    by (simp add: main_reconciler_def conflicting_def cache_client_def not_found_def)
  have hd: "handleDeletion ?c foo_deleting
              = ([CallGetDeployment (dependentKey foo_deleting)], True, None)"
    by (rule handleDeletion_not_found [OF g]) simp
  have up: "Update_CustomDeployment (Client ?c) x = Inl (StatusError StatusReasonConflict)" for x
    by (simp add: main_reconciler_def conflicting_def cache_client_def)
  have "returned (Reconcile ?c foo_request)
          = (Result_empty, Some (StatusError StatusReasonConflict))"
    by (simp add: Reconcile_deleting [OF h] hd returned_def up errorOf_def)
  with h g show ?thesis by simp
qed

subsection \<open>Convergence of the dependent\<close>

text \<open>
  Claim C3. For an active CustomDeployment that carries the finalizer and whose dependent
  Deployment is not found, the reconciler that \<^verbatim>\<open>main\<close> sets up issues exactly one
  Create. The Deployment created is the desired one, with one owner reference: that of
  the controller, naming the CustomDeployment; its replica count is the desired one.
\<close>

theorem missing_dependent_created_once:
  assumes "Get_CustomDeployment cl (NamespacedName req) = Inr cd"
    and "IsZero (DeletionTimestamp cd)"
    and "ContainsFinalizer cd customDeploymentFinalizer"
    and "Get_Deployment cl (dependentKey cd) = Inl err"
    and "IsNotFound err"
  shows "\<exists>d. filter isCreate (calls (Reconcile (main_reconciler cl) req)) = [CallCreate d]
           \<and> OwnerReferences d =
               [\<lparr>APIVersion = ''apps.myorg.io/v1alpha1'',
                 OwnerReference.Kind = ''CustomDeployment'',
                 OwnerReference.Name = Name cd,
                 OwnerReference.UID = UID cd,
                 Controller = Some True,
                 BlockOwnerDeletion = Some True\<rparr>]
           \<and> DeploymentSpec.Replicas (Deployment.Spec d)
               = Some (CustomDeploymentSpec.Replicas (CustomDeployment.Spec cd))
           \<and> d = (desiredDeployment cd)\<lparr>OwnerReferences := OwnerReferences d\<rparr>"
proof -
  let ?c = "main_reconciler cl"
  let ?ref = "\<lparr>APIVersion = ''apps.myorg.io/v1alpha1'',
                 OwnerReference.Kind = ''CustomDeployment'',
                 OwnerReference.Name = Name cd,
                 OwnerReference.UID = UID cd,
                 Controller = Some True,
                 BlockOwnerDeletion = Some True\<rparr>"
  let ?d = "(desiredDeployment cd)\<lparr>OwnerReferences := [?ref]\<rparr>"
  have cl: "Client ?c = cl" and sch: "Scheme ?c = main_scheme"
    by (simp_all add: main_reconciler_def)
  have conv: "convergeDeployment ?c cd =
                ([CallGetDeployment (dependentKey cd), CallCreate ?d], Create_Deployment cl ?d)"
    using assms(4,5) by (simp add: converge_not_found cl sch SetControllerReference_desired)
  have "filter isCreate (fst (handleCreateOrUpdate ?c cd)) = [CallCreate ?d]"
    by (cases "Create_Deployment cl ?d")
       (simp_all add: handleCreateOrUpdate_calls conv publishStatus_only_status)
  then have "filter isCreate (calls (Reconcile ?c req)) = [CallCreate ?d]"
    using assms(1,2,3) by (simp add: calls_def Reconcile_active cl)
  moreover have "DeploymentSpec.Replicas (Deployment.Spec ?d)
               = Some (CustomDeploymentSpec.Replicas (CustomDeployment.Spec cd))"
    by (simp add: desiredDeployment_def Let_def)
  ultimately show ?thesis
    by (intro exI [of _ ?d]) simp
qed

theorem missing_dependent_created_once_witness:
  "Get_CustomDeployment (cache_client (Inr foo) (Inl not_found)) (NamespacedName foo_request) = Inr foo
   \<and> IsZero (DeletionTimestamp foo)
   \<and> ContainsFinalizer foo customDeploymentFinalizer
   \<and> Get_Deployment (cache_client (Inr foo) (Inl not_found)) (dependentKey foo) = Inl not_found
   \<and> IsNotFound not_found
   \<and> (\<exists>d. filter isCreate (calls (Reconcile (main_reconciler (cache_client (Inr foo) (Inl not_found)))
              foo_request)) = [CallCreate d]
          \<and> OwnerReferences d =
               [\<lparr>APIVersion = ''apps.myorg.io/v1alpha1'',
                 OwnerReference.Kind = ''CustomDeployment'',
                 OwnerReference.Name = ''foo'',
                 OwnerReference.UID = ''uid-foo'',
                 Controller = Some True,
                 BlockOwnerDeletion = Some True\<rparr>]
          \<and> DeploymentSpec.Replicas (Deployment.Spec d) = Some 5)"
proof -
  have h: "Get_CustomDeployment (cache_client (Inr foo) (Inl not_found)) (NamespacedName foo_request)
             = Inr foo"
      "IsZero (DeletionTimestamp foo)"
      "ContainsFinalizer foo customDeploymentFinalizer"
      "Get_Deployment (cache_client (Inr foo) (Inl not_found)) (dependentKey foo) = Inl not_found"
      "IsNotFound not_found"
    by (simp_all add: cache_client_def foo_def ContainsFinalizer_def customDeploymentFinalizer_def
        not_found_def)
  have f: "Name foo = ''foo''" "UID foo = ''uid-foo''"
     "CustomDeploymentSpec.Replicas (CustomDeployment.Spec foo) = 5"
    by (simp_all add: foo_def)
  from missing_dependent_created_once [OF h] obtain d where
    "filter isCreate (calls (Reconcile (main_reconciler (cache_client (Inr foo) (Inl not_found)))
              foo_request)) = [CallCreate d]
          \<and> OwnerReferences d =
               [\<lparr>APIVersion = ''apps.myorg.io/v1alpha1'',
                 OwnerReference.Kind = ''CustomDeployment'',
                 OwnerReference.Name = ''foo'',
                 OwnerReference.UID = ''uid-foo'',
                 Controller = Some True,
                 BlockOwnerDeletion = Some True\<rparr>]
          \<and> DeploymentSpec.Replicas (Deployment.Spec d) = Some 5"
    unfolding f by blast
  with h show ?thesis by blast
qed

text \<open>
  Claim C4. For an active CustomDeployment that carries the finalizer and whose dependent
  Deployment exists: if the replica count of the Deployment is not the desired one,
  Reconcile issues exactly one Update, of the Deployment read with the replica count set
  to the desired one, so that putting the old count back gives the Deployment read; if
  the counts agree, Reconcile issues no Update.
\<close>

theorem replica_drift_updates_replicas_only:
  assumes "Get_CustomDeployment (Client c) (NamespacedName req) = Inr cd"
    and "IsZero (DeletionTimestamp cd)"
    and "ContainsFinalizer cd customDeploymentFinalizer"
    and "Get_Deployment (Client c) (dependentKey cd) = Inr deploy"
  shows "filter isUpdate (calls (Reconcile c req)) =
           (if DeploymentSpec.Replicas (Deployment.Spec deploy)
                 = Some (CustomDeploymentSpec.Replicas (CustomDeployment.Spec cd))
            then []
            else [CallUpdateDeployment
                    (deploy\<lparr>Deployment.Spec := (Deployment.Spec deploy)
                       \<lparr>DeploymentSpec.Replicas :=
                          Some (CustomDeploymentSpec.Replicas (CustomDeployment.Spec cd))\<rparr>\<rparr>)])
       \<and> (\<forall>d. CallUpdateDeployment d \<in> set (calls (Reconcile c req)) \<longrightarrow>
              d\<lparr>Deployment.Spec := (Deployment.Spec d)
                 \<lparr>DeploymentSpec.Replicas := DeploymentSpec.Replicas (Deployment.Spec deploy)\<rparr>\<rparr>
                = deploy)"
proof -
  let ?d = "deploy\<lparr>Deployment.Spec := (Deployment.Spec deploy)
                       \<lparr>DeploymentSpec.Replicas :=
                          Some (CustomDeploymentSpec.Replicas (CustomDeployment.Spec cd))\<rparr>\<rparr>"
  have updates: "filter isUpdate (calls (Reconcile c req)) =
           (if DeploymentSpec.Replicas (Deployment.Spec deploy)
                 = Some (CustomDeploymentSpec.Replicas (CustomDeployment.Spec cd))
            then [] else [CallUpdateDeployment ?d])"
  proof (cases "DeploymentSpec.Replicas (Deployment.Spec deploy)
                 = Some (CustomDeploymentSpec.Replicas (CustomDeployment.Spec cd))")
    case True
    have "filter isUpdate (fst (handleCreateOrUpdate c cd)) = []"
      by (simp add: handleCreateOrUpdate_calls converge_agree [OF assms(4) True]
          publishStatus_only_status)
    with True assms(1,2,3) show ?thesis
      by (simp add: calls_def Reconcile_active)
  next
    case False
    have "filter isUpdate (fst (handleCreateOrUpdate c cd)) = [CallUpdateDeployment ?d]"
      by (cases "Update_Deployment (Client c) ?d")
         (simp_all add: handleCreateOrUpdate_calls converge_drift [OF assms(4) False]
          publishStatus_only_status)
    with False assms(1,2,3) show ?thesis
      by (simp add: calls_def Reconcile_active)
  qed
  have frame: "d\<lparr>Deployment.Spec := (Deployment.Spec d)
                 \<lparr>DeploymentSpec.Replicas := DeploymentSpec.Replicas (Deployment.Spec deploy)\<rparr>\<rparr>
                = deploy"
    if "CallUpdateDeployment d \<in> set (calls (Reconcile c req))" for d
  proof -
    from that have "CallUpdateDeployment d \<in> set (filter isUpdate (calls (Reconcile c req)))"
      by simp
    then have "d = ?d"
      unfolding updates by (simp split: if_splits)
    then show ?thesis by simp
  qed
  from updates frame show ?thesis by blast
qed

text \<open>
  The scenario of the specification: three replicas observed, five desired.
\<close>

theorem replica_drift_updates_replicas_only_witness:
  "Get_CustomDeployment (Client (main_reconciler (cache_client (Inr foo) (Inr (foo_deployment 3 3)))))
       (NamespacedName foo_request) = Inr foo
   \<and> IsZero (DeletionTimestamp foo)
   \<and> ContainsFinalizer foo customDeploymentFinalizer
   \<and> Get_Deployment (Client (main_reconciler (cache_client (Inr foo) (Inr (foo_deployment 3 3)))))
       (dependentKey foo) = Inr (foo_deployment 3 3)
   \<and> filter isUpdate
         (calls (Reconcile (main_reconciler (cache_client (Inr foo) (Inr (foo_deployment 3 3))))
            foo_request)) =
       [CallUpdateDeployment
          ((foo_deployment 3 3)\<lparr>Deployment.Spec := (Deployment.Spec (foo_deployment 3 3))
              \<lparr>DeploymentSpec.Replicas := Some 5\<rparr>\<rparr>)]"
  using replica_drift_updates_replicas_only [of "main_reconciler (cache_client (Inr foo) (Inr (foo_deployment 3 3)))"
      foo_request foo "foo_deployment 3 3"]
  by (simp add: cache_client_reads foo_facts foo_deployment_facts ContainsFinalizer_def
      customDeploymentFinalizer_def)

subsection \<open>The other branches of the state machine\<close>

text \<open>
  Claim C5. For an active CustomDeployment without the finalizer, a pass consists of the
  read of the parent and one Update that stores the parent with the finalizer token
  appended: it neither reads nor writes the dependent Deployment and writes no status.
\<close>

theorem missing_finalizer_added_first:
  assumes "Get_CustomDeployment (Client c) (NamespacedName req) = Inr cd"
    and "IsZero (DeletionTimestamp cd)"
    and "\<not> ContainsFinalizer cd customDeploymentFinalizer"
  shows "calls (Reconcile c req) =
           [CallGetCustomDeployment (NamespacedName req),
            CallUpdateCustomDeployment
              (cd\<lparr>Finalizers := Finalizers cd @ [customDeploymentFinalizer]\<rparr>)]"
  using assms Reconcile_new [OF assms]
  by (simp add: calls_def AddFinalizer_def ContainsFinalizer_def)

theorem missing_finalizer_added_first_witness:
  "Get_CustomDeployment (cache_client (Inr foo_new) (Inl not_found)) (NamespacedName foo_request)
     = Inr foo_new
   \<and> IsZero (DeletionTimestamp foo_new)
   \<and> \<not> ContainsFinalizer foo_new customDeploymentFinalizer
   \<and> calls (Reconcile (main_reconciler (cache_client (Inr foo_new) (Inl not_found))) foo_request) =
       [CallGetCustomDeployment \<lparr>NamespacedName.Namespace = ''ns'', NamespacedName.Name = ''foo''\<rparr>,
        CallUpdateCustomDeployment foo]"
  using missing_finalizer_added_first [of "main_reconciler (cache_client (Inr foo_new) (Inl not_found))" foo_request foo_new]
  by (simp add: main_reconciler_def cache_client_def foo_new_def foo_def foo_request_def
      ContainsFinalizer_def customDeploymentFinalizer_def)

text \<open>
  Claim C6. For a CustomDeployment with deletion requested and without the finalizer, a
  pass consists of the read of the parent alone and returns success.
\<close>

theorem deleted_without_finalizer_is_terminal:
  assumes "Get_CustomDeployment (Client c) (NamespacedName req) = Inr cd"
    and "\<not> IsZero (DeletionTimestamp cd)"
    and "\<not> ContainsFinalizer cd customDeploymentFinalizer"
  shows "Reconcile c req = ([CallGetCustomDeployment (NamespacedName req)], Result_empty, None)"
  using assms by (rule Reconcile_purgeable)

theorem deleted_without_finalizer_is_terminal_witness:
  "Get_CustomDeployment (cache_client (Inr foo_purgeable) (Inr (foo_deployment 5 5)))
       (NamespacedName foo_request) = Inr foo_purgeable
   \<and> \<not> IsZero (DeletionTimestamp foo_purgeable)
   \<and> \<not> ContainsFinalizer foo_purgeable customDeploymentFinalizer
   \<and> Reconcile (main_reconciler (cache_client (Inr foo_purgeable) (Inr (foo_deployment 5 5))))
        foo_request =
       ([CallGetCustomDeployment \<lparr>NamespacedName.Namespace = ''ns'', NamespacedName.Name = ''foo''\<rparr>],
        Result_empty, None)"
  using deleted_without_finalizer_is_terminal [of "main_reconciler (cache_client (Inr foo_purgeable) (Inr (foo_deployment 5 5)))"
      foo_request foo_purgeable]
  by (simp add: main_reconciler_def cache_client_def foo_purgeable_def foo_def foo_request_def
      ContainsFinalizer_def)

text \<open>
  Claim C7. A not-found answer to a read is no error: when the read of the
  CustomDeployment answers not-found, Reconcile returns success after that one read; when
  the read of the dependent answers not-found during teardown, \<open>handleDeletion\<close>
  reports the teardown complete, without an error.
\<close>

theorem not_found_read_is_no_error:
  assumes "IsNotFound err"
  shows "(Get_CustomDeployment (Client c) (NamespacedName req) = Inl err \<longrightarrow>
            Reconcile c req = ([CallGetCustomDeployment (NamespacedName req)], Result_empty, None))
       \<and> (Get_Deployment (Client c) (dependentKey cd) = Inl err \<longrightarrow>
            handleDeletion c cd = ([CallGetDeployment (dependentKey cd)], True, None))"
  using assms
  by (simp add: Reconcile_parent_unread handleDeletion_not_found IgnoreNotFound_def)

theorem not_found_read_is_no_error_witness:
  "IsNotFound not_found
   \<and> Get_CustomDeployment (cache_client (Inl not_found) (Inl not_found)) (NamespacedName foo_request)
       = Inl not_found
   \<and> Reconcile (main_reconciler (cache_client (Inl not_found) (Inl not_found))) foo_request =
       ([CallGetCustomDeployment (NamespacedName foo_request)], Result_empty, None)
   \<and> Get_Deployment (cache_client (Inl not_found) (Inl not_found)) (dependentKey foo_deleting)
       = Inl not_found
   \<and> handleDeletion (main_reconciler (cache_client (Inl not_found) (Inl not_found))) foo_deleting =
       ([CallGetDeployment (dependentKey foo_deleting)], True, None)"
  using not_found_read_is_no_error [of not_found "main_reconciler (cache_client (Inl not_found) (Inl not_found))"
      foo_request foo_deleting]
  by (simp add: main_reconciler_def cache_client_def not_found_def)

subsection \<open>Status\<close>

text \<open>
  Claim C8. Once the dependent is converged, that is, once \<open>convergeDeployment\<close> has
  returned the Deployment it holds rather than an error, Reconcile issues one status
  update if the available replicas of that Deployment differ from those published in the
  status of the CustomDeployment, and none if they are equal. The status written is the
  published one with the available replicas replaced.
\<close>

theorem status_written_once_iff_changed:
  assumes "Get_CustomDeployment (Client c) (NamespacedName req) = Inr cd"
    and "IsZero (DeletionTimestamp cd)"
    and "ContainsFinalizer cd customDeploymentFinalizer"
    and "convergeDeployment c cd = (cs, Inr deploy)"
  shows "filter isStatusUpdate (calls (Reconcile c req)) =
           (if DeploymentStatus.AvailableReplicas (Deployment.Status deploy)
                 \<noteq> CustomDeploymentStatus.AvailableReplicas (CustomDeployment.Status cd)
            then [CallStatusUpdate
                    (cd\<lparr>CustomDeployment.Status := (CustomDeployment.Status cd)
                       \<lparr>CustomDeploymentStatus.AvailableReplicas :=
                          DeploymentStatus.AvailableReplicas (Deployment.Status deploy)\<rparr>\<rparr>)]
            else [])"
proof -
  have "filter isStatusUpdate cs = []"
    using converge_no_status_update [of c cd] assms(4) by simp
  then have "filter isStatusUpdate (fst (handleCreateOrUpdate c cd)) =
               filter isStatusUpdate (fst (publishStatus c cd deploy))"
    by (simp add: handleCreateOrUpdate_calls assms(4))
  then show ?thesis
    using assms(1,2,3) by (auto simp add: calls_def Reconcile_active publishStatus_calls)
qed

theorem status_written_once_iff_changed_witness:
  "Get_CustomDeployment (Client (main_reconciler (cache_client (Inr foo) (Inr (foo_deployment 5 3)))))
       (NamespacedName foo_request) = Inr foo
   \<and> IsZero (DeletionTimestamp foo)
   \<and> ContainsFinalizer foo customDeploymentFinalizer
   \<and> convergeDeployment (main_reconciler (cache_client (Inr foo) (Inr (foo_deployment 5 3)))) foo
       = ([CallGetDeployment (dependentKey foo)], Inr (foo_deployment 5 3))
   \<and> filter isStatusUpdate
         (calls (Reconcile (main_reconciler (cache_client (Inr foo) (Inr (foo_deployment 5 3))))
            foo_request)) =
       [CallStatusUpdate
          (foo\<lparr>CustomDeployment.Status := \<lparr>CustomDeploymentStatus.AvailableReplicas = 3\<rparr>\<rparr>)]"
proof -
  let ?c = "main_reconciler (cache_client (Inr foo) (Inr (foo_deployment 5 3)))"
  have conv: "convergeDeployment ?c foo
                = ([CallGetDeployment (dependentKey foo)], Inr (foo_deployment 5 3))"
    by (rule converge_agree) (simp_all add: cache_client_reads foo_facts foo_deployment_facts)
  have h: "Get_CustomDeployment (Client ?c) (NamespacedName foo_request) = Inr foo"
    "IsZero (DeletionTimestamp foo)" "ContainsFinalizer foo customDeploymentFinalizer"
    by (simp_all add: cache_client_reads foo_facts ContainsFinalizer_def
        customDeploymentFinalizer_def)
  have "CustomDeployment.Status foo = \<lparr>CustomDeploymentStatus.AvailableReplicas = 0\<rparr>"
    by (simp add: foo_def)
  with status_written_once_iff_changed [OF h conv] h conv show ?thesis
    by (simp add: foo_deployment_facts foo_facts)
qed

subsection \<open>The two controllers\<close>

text \<open>
  Claim C9. On an active CustomDeployment whose finalizers contain
  \<^verbatim>\<open>apps.myorg.io/finalizer\<close>, whatever the client answers, the finalizer-aware
  controller and the controller without finalizers issue the same calls with the same
  arguments and return the same result and error.
\<close>

theorem Reconcile_agrees_with_controller_Reconcile:
  assumes "Get_CustomDeployment (Client c) (NamespacedName req) = Inr cd"
    and "IsZero (DeletionTimestamp cd)"
    and "''apps.myorg.io/finalizer'' \<in> set (Finalizers cd)"
  shows "Reconcile c req = controller_Reconcile c req"
proof -
  have "ContainsFinalizer cd customDeploymentFinalizer"
    using assms(3) by (simp add: ContainsFinalizer_def customDeploymentFinalizer_def)
  then show ?thesis
    using assms(1,2) by (simp add: Reconcile_active controller_Reconcile_found)
qed

theorem Reconcile_agrees_with_controller_Reconcile_witness:
  "Get_CustomDeployment (cache_client (Inr foo) (Inr (foo_deployment 3 3))) (NamespacedName foo_request)
     = Inr foo
   \<and> IsZero (DeletionTimestamp foo)
   \<and> ''apps.myorg.io/finalizer'' \<in> set (Finalizers foo)
   \<and> Reconcile (main_reconciler (cache_client (Inr foo) (Inr (foo_deployment 3 3)))) foo_request
       = controller_Reconcile (main_reconciler (cache_client (Inr foo) (Inr (foo_deployment 3 3))))
           foo_request"
  using Reconcile_agrees_with_controller_Reconcile [of "main_reconciler (cache_client (Inr foo) (Inr (foo_deployment 3 3)))" foo_request foo]
  by (simp add: main_reconciler_def cache_client_def foo_def)

subsection \<open>The desired Deployment\<close>

text \<open>
  Claim C10. The desired Deployment has the name and the namespace of the
  CustomDeployment and its replica count; its selector and the labels of its pod template
  are both the single pair \<^verbatim>\<open>app\<close>, name of the CustomDeployment, so the selector
  selects the pods of the template.
\<close>

theorem desiredDeployment_selects_own_pods:
  "Name (desiredDeployment cd) = Name cd
   \<and> Namespace (desiredDeployment cd) = Namespace cd
   \<and> DeploymentSpec.Replicas (Deployment.Spec (desiredDeployment cd))
       = Some (CustomDeploymentSpec.Replicas (CustomDeployment.Spec cd))
   \<and> Selector (Deployment.Spec (desiredDeployment cd))
       = Some \<lparr>MatchLabels = [''app'' \<mapsto> Name cd]\<rparr>
   \<and> Labels (Template (Deployment.Spec (desiredDeployment cd))) = [''app'' \<mapsto> Name cd]
   \<and> selects \<lparr>MatchLabels = [''app'' \<mapsto> Name cd]\<rparr>
        (Labels (Template (Deployment.Spec (desiredDeployment cd))))"
  by (simp add: desiredDeployment_def selects_def Let_def)

theorem desiredDeployment_selects_own_pods_witness:
  "Selector (Deployment.Spec (desiredDeployment foo)) = Some \<lparr>MatchLabels = [''app'' \<mapsto> ''foo'']\<rparr>
   \<and> Labels (Template (Deployment.Spec (desiredDeployment foo))) = [''app'' \<mapsto> ''foo'']
   \<and> selects \<lparr>MatchLabels = [''app'' \<mapsto> ''foo'']\<rparr>
        (Labels (Template (Deployment.Spec (desiredDeployment foo))))
   \<and> DeploymentSpec.Replicas (Deployment.Spec (desiredDeployment foo)) = Some 5"
  using desiredDeployment_selects_own_pods [of foo] by (simp add: foo_def desiredDeployment_def selects_def Let_def)

end
